theory Spec2Isabelle
  imports Main
begin

section \<open>Paths (pathlib)\<close>

text \<open>
  A \<open>Path\<close> is its list of components; components hold no separator.
  Characters stand for code points below 256.
\<close>

type_synonym path = "string list"

datatype exn = TypeError | ValueError

text \<open>\<open>str(path)\<close>: the components joined by the separator; the empty path prints as a dot.\<close>

fun path_str :: "path \<Rightarrow> string" where
  "path_str [] = ''.''"
| "path_str [c] = c"
| "path_str (c # cs) = c @ ''/'' @ path_str cs"

text \<open>\<open>Path.name\<close>: the final component, empty when there is none.\<close>

definition name :: "path \<Rightarrow> string" where
  "name p = (if p = [] then [] else last p)"

text \<open>\<open>Path.parent\<close>.\<close>

definition parent :: "path \<Rightarrow> path" where
  "parent p = butlast p"

text \<open>\<open>str.rfind\<close> for one character: the index of its last occurrence.\<close>

fun rfind :: "char \<Rightarrow> string \<Rightarrow> nat option" where
  "rfind c [] = None"
| "rfind c (x # xs) =
     (case rfind c xs of
        Some i \<Rightarrow> Some (Suc i)
      | None \<Rightarrow> if x = c then Some 0 else None)"

text \<open>
  \<open>Path.suffix\<close>: with \<open>i = name.rfind('.')\<close>, the text from \<open>i\<close> on when
  \<open>0 < i < len(name) - 1\<close>, the empty string otherwise.
\<close>

definition suffix :: "path \<Rightarrow> string" where
  "suffix p =
     (let n = name p in
      case rfind (CHR ''.'') n of
        None \<Rightarrow> []
      | Some i \<Rightarrow> if 0 < i \<and> Suc i < length n then drop i n else [])"

text \<open>
  \<open>Path.with_suffix\<close>: raises \<open>ValueError\<close> on an empty name; otherwise the old suffix
  of the name is replaced by the new one.
\<close>

definition with_suffix :: "path \<Rightarrow> string \<Rightarrow> exn + path" where
  "with_suffix p sfx =
     (let n = name p in
      if n = [] then Inl ValueError
      else
        let old = suffix p;
            n' = (if old = [] then n @ sfx else take (length n - length old) n @ sfx)
        in Inr (butlast p @ [n']))"

section \<open>Text helpers\<close>

text \<open>\<open>str(n)\<close> for an integer, in decimal.\<close>

definition digit :: "nat \<Rightarrow> char" where
  "digit d = ''0123456789'' ! d"

function digits :: "nat \<Rightarrow> string" where
  "digits n = (if n < 10 then [digit n] else digits (n div 10) @ [digit (n mod 10)])"
  by pat_completeness auto
termination
  by (relation "measure (\<lambda>n. n)") auto

declare digits.simps [simp del]

definition str_int :: "int \<Rightarrow> string" where
  "str_int i = (if i < 0 then CHR ''-'' # digits (nat (- i)) else digits (nat i))"

text \<open>
  \<open>str.splitlines\<close>: the text is cut at every line boundary (line feed, vertical tab,
  form feed, carriage return, carriage return followed by line feed, the separators
  0x1C to 0x1E, next line 0x85); the boundaries are dropped and no empty last line is added.
\<close>

definition is_linebreak :: "char \<Rightarrow> bool" where
  "is_linebreak c =
     (c = CHR 0x0A \<or> c = CHR 0x0B \<or> c = CHR 0x0C \<or> c = CHR 0x0D \<or>
      c = CHR 0x1C \<or> c = CHR 0x1D \<or> c = CHR 0x1E \<or> c = CHR 0x85)"

fun splitlines :: "string \<Rightarrow> string list" where
  "splitlines [] = []"
| "splitlines (c # cs) =
     (if c = CHR 0x0D then
        (case cs of
           [] \<Rightarrow> [[]]
         | d # ds \<Rightarrow> if d = CHR 0x0A then [] # splitlines ds else [] # splitlines cs)
      else if is_linebreak c then [] # splitlines cs
      else
        (case splitlines cs of
           [] \<Rightarrow> [[c]]
         | l # ls \<Rightarrow> (c # l) # ls))"

text \<open>\<open>str.capitalize\<close> on ASCII letters: first character upper case, the rest lower case.\<close>

definition upper_char :: "char \<Rightarrow> char" where
  "upper_char c =
     (case map_of (zip ''abcdefghijklmnopqrstuvwxyz'' ''ABCDEFGHIJKLMNOPQRSTUVWXYZ'') c of
        Some u \<Rightarrow> u
      | None \<Rightarrow> c)"

definition lower_char :: "char \<Rightarrow> char" where
  "lower_char c =
     (case map_of (zip ''ABCDEFGHIJKLMNOPQRSTUVWXYZ'' ''abcdefghijklmnopqrstuvwxyz'') c of
        Some l \<Rightarrow> l
      | None \<Rightarrow> c)"

definition capitalize :: "string \<Rightarrow> string" where
  "capitalize s = (case s of [] \<Rightarrow> [] | c # cs \<Rightarrow> upper_char c # map lower_char cs)"

section \<open>Configuration and results\<close>

text \<open>
  A tool's \<open>command\<close> comes from JSON and is only checked for presence: it is a list of
  strings, or a plain string.
\<close>

datatype command = CmdList "string list" | CmdStr string

text \<open>Python truthiness of a command: the empty list and the empty string are false.\<close>

fun truthy :: "command \<Rightarrow> bool" where
  "truthy (CmdList c) = (c \<noteq> [])"
| "truthy (CmdStr c) = (c \<noteq> [])"

record tool_config =
  tc_tool :: string
  tc_command :: command
  tc_check :: bool
  tc_fix :: bool
  tc_timeout :: "int option"

type_synonym tool_map = "string \<rightharpoonup> tool_config list"

record AppConfig =
  fix_mode :: bool
  max_workers :: int
  default_timeout :: int
  skip_dirs :: "string set"

record AnalysisResult =
  file_path :: string
  language :: string
  success :: bool
  errors :: "string list"
  warnings :: "string list"
  was_fixed :: bool

text \<open>The extension table of \<open>EnterpriseAnalyzer.__init__\<close>.\<close>

definition ext_map :: "string \<rightharpoonup> string" where
  "ext_map = map_of
     [(''.py'', ''python''), (''.js'', ''javascript''), (''.ts'', ''javascript''),
      (''.go'', ''go''), (''.rs'', ''rust''), (''.c'', ''c/c++''), (''.cpp'', ''c/c++'')]"

section \<open>The world outside the program\<close>

text \<open>
  The file system maps a path to the content of the file there. What a spawned tool does
  is given by the environment: \<open>subprocess.run\<close> returns a completed process (return
  code, stdout, stderr), times out, or raises another exception; in each case the tool
  may have changed the file system.
\<close>

type_synonym fs = "path \<rightharpoonup> string"

datatype proc_result = Completed int string string | TimeoutExpired | Raised string

record world =
  w_which :: "string \<Rightarrow> bool"
  w_resolve :: "path \<Rightarrow> string"
  w_run :: "string list \<Rightarrow> path \<Rightarrow> int \<Rightarrow> fs \<Rightarrow> proc_result \<times> fs"
  w_copy_denied :: "path \<Rightarrow> bool"
  w_pick :: "path list \<Rightarrow> nat"

text \<open>
  The program's state: the files on disk, the commands handed to \<open>subprocess.run\<close> so far
  (in order), and the lock registry of \<open>ConcurrencyManager\<close>. A lock object is identified by a number; a new
  lock takes the next unused one.
\<close>

record state =
  files :: fs
  spawned :: "string list list"
  locks :: "string \<rightharpoonup> nat"
  next_lock :: nat

section \<open>ConcurrencyManager\<close>

definition get_lock :: "world \<Rightarrow> state \<Rightarrow> path \<Rightarrow> nat \<times> state" where
  "get_lock w s p =
     (let abs_path = w_resolve w p in
      case locks s abs_path of
        Some l \<Rightarrow> (l, s)
      | None \<Rightarrow>
          (next_lock s,
           s\<lparr>locks := (locks s)(abs_path \<mapsto> next_lock s), next_lock := Suc (next_lock s)\<rparr>))"

text \<open>A run of calls to \<open>get_lock\<close>, one after the other (the registry lock serialises them).\<close>

fun get_locks :: "world \<Rightarrow> state \<Rightarrow> path list \<Rightarrow> state" where
  "get_locks w s [] = s"
| "get_locks w s (p # ps) = get_locks w (snd (get_lock w s p)) ps"

text \<open>The registry of a fresh \<open>ConcurrencyManager\<close>, over the given files.\<close>

definition init_state :: "fs \<Rightarrow> state" where
  "init_state f = \<lparr>files = f, spawned = [], locks = Map.empty, next_lock = 0\<rparr>"

section \<open>The tool runner\<close>

text \<open>
  \<open>shutil.copyfile\<close> inside \<open>try ... except Exception: pass\<close>: when the source is
  missing or the destination cannot be written nothing changes.
\<close>

definition copyfile :: "world \<Rightarrow> path \<Rightarrow> path \<Rightarrow> state \<Rightarrow> state" where
  "copyfile w src dst s =
     (case files s src of
        None \<Rightarrow> s
      | Some c \<Rightarrow> if w_copy_denied w dst then s else s\<lparr>files := (files s)(dst \<mapsto> c)\<rparr>)"

definition exists :: "state \<Rightarrow> path \<Rightarrow> bool" where
  "exists s p = (files s p \<noteq> None)"

text \<open>
  \<open>shutil.move(src, dst)\<close>: the destination takes the source's content, the source is
  gone. It and \<open>os.remove\<close> are only called on a path that exists. The model covers the
  calls in which \<open>exists()\<close>, \<open>shutil.move\<close>, \<open>os.remove\<close> and \<open>resolve()\<close> do not raise:
  what is proved of \<open>run_tool\<close> is proved of the invocations that return.
\<close>

definition move :: "path \<Rightarrow> path \<Rightarrow> state \<Rightarrow> state" where
  "move src dst s = s\<lparr>files := (files s)(dst := files s src, src := None)\<rparr>"

definition remove :: "path \<Rightarrow> state \<Rightarrow> state" where
  "remove p s = s\<lparr>files := (files s)(p := None)\<rparr>"

text \<open>
  \<open>EnterpriseAnalyzer._run_tool\<close>. The command concatenation and the backup path are
  computed before the \<open>try\<close>: a string command raises \<open>TypeError\<close>, an empty file name
  raises \<open>ValueError\<close>, and neither is caught.
\<close>

definition run_tool ::
  "world \<Rightarrow> AppConfig \<Rightarrow> state \<Rightarrow> path \<Rightarrow> tool_config \<Rightarrow> bool
     \<Rightarrow> (exn + int \<times> string \<times> string) \<times> state" where
  "run_tool w cfg s p tc is_fixer =
     (case tc_command tc of
        CmdStr c \<Rightarrow> (Inl TypeError, s)
      | CmdList c \<Rightarrow>
          let cmd = c @ [path_str p];
              tmo = (case tc_timeout tc of Some t \<Rightarrow> t | None \<Rightarrow> default_timeout cfg)
          in
          (case with_suffix p (suffix p @ ''.codex.bak'') of
             Inl e \<Rightarrow> (Inl e, s)
           | Inr backup_path \<Rightarrow>
               if \<not> w_which w (hd cmd) then
                 (Inr (- 1, [], ''Tool '' @ [CHR 0x27] @ hd cmd @ [CHR 0x27] @ '' not found in system path.''), s)
               else
                 let s1 = (if is_fixer then copyfile w p backup_path s else s);
                     r = w_run w cmd (parent p) tmo (files s1);
                     s2 = s1\<lparr>files := snd r, spawned := spawned s1 @ [cmd]\<rparr>
                 in
                 (case fst r of
                    Completed rc out err \<Rightarrow>
                      if is_fixer \<and> rc \<noteq> 0 \<and> exists s2 backup_path then
                        (Inr (rc, out, ''Fix failed; rolled back changes. '' @ err),
                         move backup_path p s2)
                      else if is_fixer \<and> exists s2 backup_path then
                        (Inr (rc, out, err), remove backup_path s2)
                      else (Inr (rc, out, err), s2)
                  | TimeoutExpired \<Rightarrow>
                      if is_fixer \<and> exists s2 backup_path then
                        (Inr (- 2, [], ''Analysis timed out after '' @ str_int tmo @ ''s and rolled back.''),
                         move backup_path p s2)
                      else (Inr (- 2, [], ''Analysis timed out after '' @ str_int tmo @ ''s.''), s2)
                  | Raised e \<Rightarrow>
                      if is_fixer \<and> exists s2 backup_path then
                        (Inr (- 3, [], ''Tool execution failed and rolled back: '' @ e),
                         move backup_path p s2)
                      else (Inr (- 3, [], ''Tool execution failed: '' @ e), s2))))"

section \<open>The file processor\<close>

text \<open>
  The fixing loop of \<open>process_file\<close>: the tools in order; an entry with \<open>fix\<close> and a
  command is run as a fixer, and the first one whose result code is 0 ends the loop.
\<close>

fun fix_loop ::
  "world \<Rightarrow> AppConfig \<Rightarrow> path \<Rightarrow> tool_config list \<Rightarrow> state \<Rightarrow> (exn + bool) \<times> state" where
  "fix_loop w cfg p [] s = (Inr False, s)"
| "fix_loop w cfg p (tc # tcs) s =
     (if tc_fix tc \<and> truthy (tc_command tc) then
        (case run_tool w cfg s p tc True of
           (Inl e, s') \<Rightarrow> (Inl e, s')
         | (Inr (code, out, err), s') \<Rightarrow>
             if code = 0 then (Inr True, s') else fix_loop w cfg p tcs s')
      else fix_loop w cfg p tcs s)"

text \<open>What one checker's result adds to the errors and warnings.\<close>

definition record_outcome ::
  "string \<Rightarrow> int \<times> string \<times> string \<Rightarrow> string list \<times> string list
     \<Rightarrow> string list \<times> string list" where
  "record_outcome tool_name r ew =
     (case r of (code, out, err) \<Rightarrow>
      case ew of (errs, warns) \<Rightarrow>
        if code = - 1 then (errs, warns @ [tool_name @ '' not available. Install it.''])
        else if code \<noteq> 0 \<or> err \<noteq> [] then
          (let output_lines = splitlines (out @ err) in
           if output_lines = [] then
             (errs @ [''Exit code '' @ str_int code @ '' from '' @ tool_name], warns)
           else
             (errs @ map (\<lambda>line. ''['' @ tool_name @ ''] '' @ line) (take 5 output_lines), warns))
        else (errs, warns))"

text \<open>The analysis loop of \<open>process_file\<close>: every entry with \<open>check\<close> and a command is run.\<close>

fun check_loop ::
  "world \<Rightarrow> AppConfig \<Rightarrow> path \<Rightarrow> tool_config list \<Rightarrow> string list \<times> string list \<Rightarrow> state
     \<Rightarrow> (exn + string list \<times> string list) \<times> state" where
  "check_loop w cfg p [] ew s = (Inr ew, s)"
| "check_loop w cfg p (tc # tcs) ew s =
     (if tc_check tc \<and> truthy (tc_command tc) then
        (case run_tool w cfg s p tc False of
           (Inl e, s') \<Rightarrow> (Inl e, s')
         | (Inr r, s') \<Rightarrow> check_loop w cfg p tcs (record_outcome (tc_tool tc) r ew) s')
      else check_loop w cfg p tcs ew s)"

definition unsupported :: "path \<Rightarrow> AnalysisResult" where
  "unsupported p =
     \<lparr>file_path = path_str p, language = ''Unknown'', success = False,
      errors = [''Unsupported language/extension''], warnings = [], was_fixed = False\<rparr>"

text \<open>The fixing phase: under fix mode the file's lock is fetched and the fixing loop runs.\<close>

definition fix_phase ::
  "world \<Rightarrow> AppConfig \<Rightarrow> path \<Rightarrow> tool_config list \<Rightarrow> state \<Rightarrow> (exn + bool) \<times> state" where
  "fix_phase w cfg p tools s =
     (if fix_mode cfg then fix_loop w cfg p tools (snd (get_lock w s p)) else (Inr False, s))"

text \<open>\<open>EnterpriseAnalyzer.process_file\<close>.\<close>

definition process_file ::
  "world \<Rightarrow> AppConfig \<Rightarrow> tool_map \<Rightarrow> state \<Rightarrow> path \<Rightarrow> (exn + AnalysisResult) \<times> state" where
  "process_file w cfg tm s p =
     (case ext_map (suffix p) of
        None \<Rightarrow> (Inr (unsupported p), s)
      | Some lang_key \<Rightarrow>
          if lang_key = [] then (Inr (unsupported p), s)
          else
            (case tm lang_key of
               None \<Rightarrow> (Inr (unsupported p), s)
             | Some tools \<Rightarrow>
                 (case fix_phase w cfg p tools s of
                    (Inl e, s1) \<Rightarrow> (Inl e, s1)
                  | (Inr fixed, s1) \<Rightarrow>
                      (case check_loop w cfg p tools ([], []) s1 of
                         (Inl e, s2) \<Rightarrow> (Inl e, s2)
                       | (Inr (errs, warns), s2) \<Rightarrow>
                           (Inr \<lparr>file_path = path_str p, language = capitalize lang_key,
                                 success = (errs = []), errors = errs, warnings = warns,
                                 was_fixed = fixed\<rparr>, s2)))))"

section \<open>The directory scanner\<close>

text \<open>A directory: the names of its files, and its subdirectories by name.\<close>

datatype tree = Dir "string list" "(string \<times> tree) list"

text \<open>
  The \<open>os.walk\<close> loop of \<open>scan_directory\<close>, top down: the files of a directory whose
  suffix is in the extension table are collected, the subdirectories named in the skip
  set are dropped from the list, and the walk descends into those that remain.
\<close>

fun walk :: "string set \<Rightarrow> path \<Rightarrow> tree \<Rightarrow> path list" where
  "walk skip root (Dir fs ds) =
     map (\<lambda>f. root @ [f]) (filter (\<lambda>f. ext_map (suffix [f]) \<noteq> None) fs) @
     concat (map (\<lambda>(d, t). walk skip (root @ [d]) t) (filter (\<lambda>(d, t). d \<notin> skip) ds))"

text \<open>
  The worker pool, as a sequential schedule: of the tasks still pending, the environment
  picks the one that completes next, and tasks run to completion one at a time in that
  order.
\<close>

primrec as_completed :: "(path list \<Rightarrow> nat) \<Rightarrow> nat \<Rightarrow> path list \<Rightarrow> path list" where
  "as_completed pick 0 pending = []"
| "as_completed pick (Suc n) pending =
     (if pending = [] then []
      else
        let i = pick pending mod length pending in
        pending ! i # as_completed pick n (take i pending @ drop (Suc i) pending))"

fun run_pool ::
  "world \<Rightarrow> AppConfig \<Rightarrow> tool_map \<Rightarrow> state \<Rightarrow> path list
     \<Rightarrow> (exn + AnalysisResult) list \<times> state" where
  "run_pool w cfg tm s [] = ([], s)"
| "run_pool w cfg tm s (p # ps) =
     (case process_file w cfg tm s p of
        (r, s1) \<Rightarrow> (case run_pool w cfg tm s1 ps of (rs, s2) \<Rightarrow> (r # rs, s2)))"

text \<open>
  The loop over the completed futures: \<open>future.result()\<close> returns the task's result or
  raises the exception the task raised, which ends the loop.
\<close>

fun gather :: "(exn + AnalysisResult) list \<Rightarrow> exn + AnalysisResult list" where
  "gather [] = Inr []"
| "gather (Inl e # rs) = Inl e"
| "gather (Inr r # rs) = (case gather rs of Inl e \<Rightarrow> Inl e | Inr xs \<Rightarrow> Inr (r # xs))"

definition files_to_scan :: "AppConfig \<Rightarrow> path \<Rightarrow> tree \<Rightarrow> path list" where
  "files_to_scan cfg target t = walk (skip_dirs cfg) target t"

text \<open>The outcome of every task, in the order in which the tasks complete.\<close>

definition task_outcomes ::
  "world \<Rightarrow> AppConfig \<Rightarrow> tool_map \<Rightarrow> state \<Rightarrow> path \<Rightarrow> tree
     \<Rightarrow> (exn + AnalysisResult) list" where
  "task_outcomes w cfg tm s target t =
     (let fts = files_to_scan cfg target t
      in fst (run_pool w cfg tm s (as_completed (w_pick w) (length fts) fts)))"

text \<open>
  \<open>EnterpriseAnalyzer.scan_directory\<close>. The files are collected first; then the pool is
  made, and \<open>ThreadPoolExecutor\<close> raises \<open>ValueError\<close> when \<open>max_workers\<close> is not
  positive, before any task is submitted.
\<close>

definition scan_directory ::
  "world \<Rightarrow> AppConfig \<Rightarrow> tool_map \<Rightarrow> state \<Rightarrow> path \<Rightarrow> tree
     \<Rightarrow> (exn + AnalysisResult list) \<times> state" where
  "scan_directory w cfg tm s target t =
     (let fts = files_to_scan cfg target t in
      if max_workers cfg \<le> 0 then (Inl ValueError, s)
      else
        let order = as_completed (w_pick w) (length fts) fts
        in case run_pool w cfg tm s order of (rs, s') \<Rightarrow> (gather rs, s'))"

section \<open>The built-in configuration\<close>

text \<open>\<open>ConfigLoader.DEFAULT_TOOL_MAP\<close> and the defaults of \<open>AppConfig\<close>.\<close>

definition pylint :: tool_config where
  "pylint =
     \<lparr>tc_tool = ''pylint'',
      tc_command = CmdList [''pylint'', ''--output-format=json'', ''--score=n''],
      tc_check = True, tc_fix = False, tc_timeout = Some 30\<rparr>"

definition black :: tool_config where
  "black =
     \<lparr>tc_tool = ''black'', tc_command = CmdList [''black'', ''-q''],
      tc_check = False, tc_fix = True, tc_timeout = Some 30\<rparr>"

definition eslint :: tool_config where
  "eslint =
     \<lparr>tc_tool = ''eslint'', tc_command = CmdList [''eslint'', ''--format=json''],
      tc_check = True, tc_fix = False, tc_timeout = Some 30\<rparr>"

definition prettier :: tool_config where
  "prettier =
     \<lparr>tc_tool = ''prettier'', tc_command = CmdList [''prettier'', ''--write''],
      tc_check = False, tc_fix = True, tc_timeout = Some 30\<rparr>"

definition DEFAULT_TOOL_MAP :: tool_map where
  "DEFAULT_TOOL_MAP = map_of
     [(''python'', [pylint, black]), (''javascript'', [eslint, prettier])]"

definition DEFAULT_SKIP :: "string set" where
  "DEFAULT_SKIP =
     {''node_modules'', ''venv'', ''.venv'', ''__pycache__'', ''.git'',
      ''build'', ''dist'', ''.ipynb_checkpoints'', ''site-packages''}"

definition default_config :: AppConfig where
  "default_config =
     \<lparr>fix_mode = False, max_workers = 4, default_timeout = 30, skip_dirs = DEFAULT_SKIP\<rparr>"

text \<open>
  An environment in which every tool is installed, exits 0 without output and leaves the
  files alone; the concrete environments below vary it.
\<close>

definition quiet_world :: world where
  "quiet_world =
     \<lparr>w_which = (\<lambda>c. True), w_resolve = path_str,
      w_run = (\<lambda>cmd cwd tmo f. (Completed 0 [] [], f)),
      w_copy_denied = (\<lambda>p. False), w_pick = (\<lambda>ps. 0)\<rparr>"

section \<open>The lock registry's invariant\<close>

text \<open>Every registered lock is older than the next one to be made, and no two paths share one.\<close>

definition lock_inv :: "state \<Rightarrow> bool" where
  "lock_inv s =
     ((\<forall>a l. locks s a = Some l \<longrightarrow> l < next_lock s) \<and>
      (\<forall>a b l. locks s a = Some l \<longrightarrow> locks s b = Some l \<longrightarrow> a = b))"

section \<open>Concrete environments\<close>

text \<open>A tool run has failed when it exits with a non-zero code, times out or cannot be run.\<close>

definition failed :: "proc_result \<Rightarrow> bool" where
  "failed r =
     (case r of Completed rc out err \<Rightarrow> rc \<noteq> 0 | TimeoutExpired \<Rightarrow> True | Raised e \<Rightarrow> True)"

text \<open>One Python file on disk, and the same with a backup left behind by an earlier run.\<close>

definition one_file :: state where
  "one_file = init_state [[''a.py''] \<mapsto> ''x = 1'']"

definition with_orphan :: state where
  "with_orphan = init_state [[''a.py''] \<mapsto> ''x = 1'', [''a.py.codex.bak''] \<mapsto> ''x = 0'']"

text \<open>A tool that overwrites \<open>a.py\<close> and then ends with the given outcome.\<close>

definition breaking_world :: "proc_result \<Rightarrow> world" where
  "breaking_world r =
     quiet_world\<lparr>w_run := (\<lambda>cmd cwd tmo f. (r, f([''a.py''] \<mapsto> ''x=(''))) \<rparr>"

text \<open>The same, on a disk where no backup can be written.\<close>

definition no_backup_world :: "proc_result \<Rightarrow> world" where
  "no_backup_world r = (breaking_world r)\<lparr>w_copy_denied := (\<lambda>p. True)\<rparr>"

text \<open>No tool is installed.\<close>

definition bare_world :: world where
  "bare_world = quiet_world\<lparr>w_which := (\<lambda>c. False)\<rparr>"

text \<open>Every tool ends with the given return code, stdout and stderr, leaving the files alone.\<close>

definition noisy_world :: "int \<Rightarrow> string \<Rightarrow> string \<Rightarrow> world" where
  "noisy_world rc out err =
     quiet_world\<lparr>w_run := (\<lambda>cmd cwd tmo f. (Completed rc out err, f))\<rparr>"

definition seven_lines :: string where
  "seven_lines =
     ''l1'' @ [CHR 0x0A] @ ''l2'' @ [CHR 0x0A] @ ''l3'' @ [CHR 0x0A] @ ''l4'' @ [CHR 0x0A] @
     ''l5'' @ [CHR 0x0A] @ ''l6'' @ [CHR 0x0A] @ ''l7'' @ [CHR 0x0A]"



text \<open>A project tree with skipped directories at two depths.\<close>

definition sample_tree :: tree where
  "sample_tree =
     Dir [''a.py'', ''README.md'']
       [(''node_modules'', Dir [''x.js''] [(''lib'', Dir [''y.js''] [])]),
        (''src'', Dir [''b.js''] [(''build'', Dir [''gen.py''] [])])]"

text \<open>A configuration file that gives the Python checker's command as one string.\<close>

definition string_command :: tool_map where
  "string_command =
     map_of [(''python'', [pylint\<lparr>tc_command := CmdStr ''pylint --score=n''\<rparr>]),
             (''javascript'', [eslint])]"

text \<open>The task submitted last completes first.\<close>

definition last_first_world :: world where
  "last_first_world = quiet_world\<lparr>w_pick := (\<lambda>ps. length ps - 1)\<rparr>"

text \<open>
  Every configured checker exits 0 with empty stderr, each run in its turn from the given
  state as the analysis loop runs them.
\<close>

fun checkers_clean ::
  "world \<Rightarrow> AppConfig \<Rightarrow> path \<Rightarrow> tool_config list \<Rightarrow> state \<Rightarrow> bool" where
  "checkers_clean w cfg p [] s = True"
| "checkers_clean w cfg p (tc # tcs) s =
     (if tc_check tc \<and> truthy (tc_command tc) then
        (case run_tool w cfg s p tc False of
           (Inl e, s') \<Rightarrow> False
         | (Inr (code, out, err), s') \<Rightarrow>
             code = 0 \<and> err = [] \<and> checkers_clean w cfg p tcs s')
      else checkers_clean w cfg p tcs s)"

text \<open>A checker that passes \<open>a.py\<close> only while it holds \<open>x = 1\<close>.\<close>

definition picky_world :: world where
  "picky_world =
     quiet_world\<lparr>w_run := (\<lambda>cmd cwd tmo f.
        (if f [''a.py''] = Some ''x = 1'' then Completed 0 ''ok'' []
         else Completed 1 ''a.py:1: bad'' [], f))\<rparr>"



section \<open>Properties of the lock registry\<close>

lemma lock_inv_init: "lock_inv (init_state f)"
  by (simp add: lock_inv_def init_state_def)

lemma lock_inv_get_lock: "lock_inv s \<Longrightarrow> lock_inv (snd (get_lock w s p))"
  unfolding lock_inv_def get_lock_def Let_def
  by (cases "locks s (w_resolve w p)") (auto split: if_splits simp: less_Suc_eq)

lemma lock_inv_get_locks: "lock_inv s \<Longrightarrow> lock_inv (get_locks w s ps)"
  by (induction ps arbitrary: s) (simp_all add: lock_inv_get_lock)

lemma get_lock_registered:
  "locks (snd (get_lock w s p)) (w_resolve w p) = Some (fst (get_lock w s p))"
  unfolding get_lock_def Let_def
  by (cases "locks s (w_resolve w p)") simp_all

lemma get_lock_keeps:
  "locks s a = Some l \<Longrightarrow> locks (snd (get_lock w s p)) a = Some l"
  unfolding get_lock_def Let_def
  by (cases "locks s (w_resolve w p)") auto

lemma get_locks_keeps:
  "locks s a = Some l \<Longrightarrow> locks (get_locks w s ps) a = Some l"
  by (induction ps arbitrary: s) (simp_all add: get_lock_keeps)

lemma get_lock_identity_inv:
  assumes "lock_inv s"
  shows "fst (get_lock w (get_locks w (snd (get_lock w s p)) ps) q) = fst (get_lock w s p)
         \<longleftrightarrow> w_resolve w q = w_resolve w p"
proof -
  let ?s1 = "snd (get_lock w s p)"
  let ?s2 = "get_locks w ?s1 ps"
  let ?l = "fst (get_lock w s p)"
  have reg: "locks ?s2 (w_resolve w p) = Some ?l"
    by (rule get_locks_keeps) (rule get_lock_registered)
  have inv2: "lock_inv ?s2"
    using assms by (simp add: lock_inv_get_lock lock_inv_get_locks)
  have inv3: "lock_inv (snd (get_lock w ?s2 q))"
    using inv2 by (rule lock_inv_get_lock)
  have q: "locks (snd (get_lock w ?s2 q)) (w_resolve w q) = Some (fst (get_lock w ?s2 q))"
    by (rule get_lock_registered)
  have p: "locks (snd (get_lock w ?s2 q)) (w_resolve w p) = Some ?l"
    using reg by (rule get_lock_keeps)
  show ?thesis
  proof
    assume "fst (get_lock w ?s2 q) = ?l"
    with q p inv3 show "w_resolve w q = w_resolve w p"
      unfolding lock_inv_def by metis
  next
    assume "w_resolve w q = w_resolve w p"
    with q p show "fst (get_lock w ?s2 q) = ?l" by simp
  qed
qed

text \<open>
  Claim C8. Take a fresh registry and any calls made on it so far (\<open>pre\<close>); a call for
  \<open>p\<close>, any further calls (\<open>ps\<close>), then a call for \<open>q\<close>. The two calls return the same
  lock exactly when \<open>p\<close> and \<open>q\<close> resolve to the same absolute path: one lock per
  resolved path, whatever the spelling, and different locks for different resolved paths.
\<close>

theorem get_lock_identity:
  "fst (get_lock w (get_locks w (snd (get_lock w (get_locks w (init_state f) pre) p)) ps) q)
     = fst (get_lock w (get_locks w (init_state f) pre) p)
   \<longleftrightarrow> w_resolve w q = w_resolve w p"
  by (rule get_lock_identity_inv) (rule lock_inv_get_locks, rule lock_inv_init)

section \<open>Properties of the file processor\<close>

text \<open>
  Claim C6. When the file's suffix is not in the extension table, or the language found
  there has no entry in the tool map, \<open>process_file\<close> returns at once the failure result
  (not successful, not fixed, the one error "Unsupported language/extension"), and the
  state is the one it started from: no command was spawned and no lock was registered.
\<close>

theorem process_file_unsupported:
  "(case ext_map (suffix p) of None \<Rightarrow> True | Some lang \<Rightarrow> tm lang = None) \<Longrightarrow>
   process_file w cfg tm s p =
     (Inr \<lparr>file_path = path_str p, language = ''Unknown'', success = False,
           errors = [''Unsupported language/extension''], warnings = [], was_fixed = False\<rparr>, s)"
  by (auto simp: process_file_def unsupported_def split: option.splits)

theorem process_file_unsupported_witness:
  "process_file quiet_world (default_config\<lparr>fix_mode := True\<rparr>) DEFAULT_TOOL_MAP
     (init_state Map.empty) [''src'', ''main.go''] =
     (Inr \<lparr>file_path = ''src/main.go'', language = ''Unknown'', success = False,
           errors = [''Unsupported language/extension''], warnings = [], was_fixed = False\<rparr>,
      init_state Map.empty)
   \<and> process_file quiet_world (default_config\<lparr>fix_mode := True\<rparr>) DEFAULT_TOOL_MAP
     (init_state Map.empty) [''notes.txt''] =
     (Inr \<lparr>file_path = ''notes.txt'', language = ''Unknown'', success = False,
           errors = [''Unsupported language/extension''], warnings = [], was_fixed = False\<rparr>,
      init_state Map.empty)"
  using process_file_unsupported [where p = "[''src'', ''main.go'']" and tm = DEFAULT_TOOL_MAP
          and w = quiet_world and cfg = "default_config\<lparr>fix_mode := True\<rparr>"
          and s = "init_state Map.empty"]
        process_file_unsupported [where p = "[''notes.txt'']" and tm = DEFAULT_TOOL_MAP
          and w = quiet_world and cfg = "default_config\<lparr>fix_mode := True\<rparr>"
          and s = "init_state Map.empty"]
  by (simp add: suffix_def name_def ext_map_def DEFAULT_TOOL_MAP_def)

section \<open>Properties of the tool runner\<close>

lemma rfind_bound: "rfind c xs = Some i \<Longrightarrow> i < length xs"
  by (induction xs arbitrary: i) (auto split: option.splits if_splits)

lemma suffix_of_name: "take (length (name p) - length (suffix p)) (name p) @ suffix p = name p"
  by (auto simp: suffix_def Let_def split: option.splits dest: rfind_bound)

lemma with_suffix_backup:
  "name p \<noteq> [] \<Longrightarrow> with_suffix p (suffix p @ sfx) = Inr (butlast p @ [name p @ sfx])"
  using suffix_of_name [of p]
  by (auto simp: with_suffix_def Let_def)

lemma with_suffix_Inr: "with_suffix p sfx = Inr b \<Longrightarrow> name p \<noteq> []"
  by (auto simp: with_suffix_def Let_def split: if_splits)

lemma backup_differs: "with_suffix p (suffix p @ ''.codex.bak'') = Inr b \<Longrightarrow> b \<noteq> p"
proof
  assume a: "with_suffix p (suffix p @ ''.codex.bak'') = Inr b" and "b = p"
  from a have n: "name p \<noteq> []" by (rule with_suffix_Inr)
  with a have "b = butlast p @ [name p @ ''.codex.bak'']" by (simp add: with_suffix_backup)
  moreover from n have "p = butlast p @ [name p]" by (auto simp: name_def split: if_splits)
  ultimately have "butlast p @ [name p @ ''.codex.bak''] = butlast p @ [name p]"
    using \<open>b = p\<close> by metis
  then show False by simp
qed

text \<open>
  Claim C2, as stated, fails: the backup copy is made inside \<open>try ... except: pass\<close>, so
  when it cannot be written the fixer still runs, and after a non-zero exit there is no
  backup to move back. Here the fixer overwrites \<open>a.py\<close> and exits 1 on a disk where the
  backup cannot be written: the file keeps what the fixer wrote.
\<close>

theorem rollback_without_backup_counterexample:
  "files one_file [''a.py''] = Some ''x = 1'' \<and>
   fst (run_tool (no_backup_world (Completed 1 [] ''error'')) default_config one_file
          [''a.py''] black True) = Inr (1, [], ''error'') \<and>
   files (snd (run_tool (no_backup_world (Completed 1 [] ''error'')) default_config one_file
          [''a.py''] black True)) [''a.py''] = Some ''x=(''"
  by (simp add: black_def no_backup_world_def breaking_world_def quiet_world_def one_file_def
        init_state_def with_suffix_def suffix_def name_def parent_def run_tool_def copyfile_def
        exists_def move_def remove_def Let_def)

text \<open>
  Claim C2, amended. A fixer invocation whose tool is found, whose backup copy was written
  (the file exists and the backup path can be written) and is still in place with that
  content when the tool ends, and whose run fails (non-zero exit, timeout or exception):
  when \<open>_run_tool\<close> returns, the file holds the content it had before the fixer ran.
\<close>

theorem run_tool_rollback:
  assumes "tc_command tc = CmdList c"
    and "w_which w (hd (c @ [path_str p]))"
    and "with_suffix p (suffix p @ ''.codex.bak'') = Inr b"
    and "files s p = Some content"
    and "\<not> w_copy_denied w b"
    and "r = w_run w (c @ [path_str p]) (parent p)
               (case tc_timeout tc of Some t \<Rightarrow> t | None \<Rightarrow> default_timeout cfg)
               ((files s)(b \<mapsto> content))"
    and "failed (fst r)"
    and "snd r b = Some content"
  shows "files (snd (run_tool w cfg s p tc True)) p = Some content"
  using assms backup_differs [of p b]
  by (auto simp: run_tool_def Let_def exists_def move_def remove_def copyfile_def failed_def
           split: proc_result.splits if_splits)

theorem run_tool_rollback_witness:
  "files (snd (run_tool (breaking_world (Completed 1 [] ''error'')) default_config one_file
      [''a.py''] black True)) [''a.py''] = Some ''x = 1'' \<and>
   files (snd (run_tool (breaking_world TimeoutExpired) default_config one_file
      [''a.py''] black True)) [''a.py''] = Some ''x = 1'' \<and>
   files (snd (run_tool (breaking_world (Raised ''spawn'')) default_config one_file
      [''a.py''] black True)) [''a.py''] = Some ''x = 1''"
  using run_tool_rollback [where w = "breaking_world (Completed 1 [] ''error'')"
          and cfg = default_config and s = one_file and p = "[''a.py'']" and tc = black
          and c = "[''black'', ''-q'']" and b = "[''a.py.codex.bak'']"
          and content = "''x = 1''", OF _ _ _ _ _ refl]
        run_tool_rollback [where w = "breaking_world TimeoutExpired"
          and cfg = default_config and s = one_file and p = "[''a.py'']" and tc = black
          and c = "[''black'', ''-q'']" and b = "[''a.py.codex.bak'']"
          and content = "''x = 1''", OF _ _ _ _ _ refl]
        run_tool_rollback [where w = "breaking_world (Raised ''spawn'')"
          and cfg = default_config and s = one_file and p = "[''a.py'']" and tc = black
          and c = "[''black'', ''-q'']" and b = "[''a.py.codex.bak'']"
          and content = "''x = 1''", OF _ _ _ _ _ refl]
  by (simp add: black_def breaking_world_def quiet_world_def one_file_def init_state_def
        with_suffix_def suffix_def name_def parent_def failed_def)

text \<open>
  Claim C10, as stated, fails: when the tool is not on the search path \<open>_run_tool\<close>
  returns before it looks at the backup path, so a backup left there by an earlier,
  interrupted run is still on disk when it returns.
\<close>

theorem orphan_backup_counterexample:
  "fst (run_tool bare_world default_config with_orphan [''a.py''] black True) =
     Inr (- 1, [], ''Tool '' @ [CHR 0x27] @ ''black'' @ [CHR 0x27] @ '' not found in system path.'') \<and>
   with_suffix [''a.py''] (suffix [''a.py''] @ ''.codex.bak'') = Inr [''a.py.codex.bak''] \<and>
   files (snd (run_tool bare_world default_config with_orphan [''a.py''] black True))
     [''a.py.codex.bak''] = Some ''x = 0''"
  by (simp add: black_def bare_world_def quiet_world_def with_orphan_def init_state_def
        with_suffix_def suffix_def name_def run_tool_def Let_def)

text \<open>
  Claim C10, amended. For every fixer invocation whose tool is found on the search path
  and for which \<open>_run_tool\<close> returns, the backup file does not exist when it returns
  (exit 0, non-zero exit, timeout or exception alike).
\<close>

theorem run_tool_backup_gone:
  assumes "fst (run_tool w cfg s p tc True) = Inr r"
    and "tc_command tc = CmdList c"
    and "w_which w (hd (c @ [path_str p]))"
    and "with_suffix p (suffix p @ ''.codex.bak'') = Inr b"
  shows "files (snd (run_tool w cfg s p tc True)) b = None"
  using assms
  by (auto simp: run_tool_def Let_def exists_def move_def remove_def
           split: proc_result.splits if_splits)

theorem run_tool_backup_gone_witness:
  "files (snd (run_tool quiet_world default_config with_orphan [''a.py''] black True))
     [''a.py.codex.bak''] = None \<and>
   files (snd (run_tool (breaking_world (Completed 2 [] [])) default_config with_orphan
     [''a.py''] black True)) [''a.py.codex.bak''] = None \<and>
   files (snd (run_tool (breaking_world TimeoutExpired) default_config with_orphan
     [''a.py''] black True)) [''a.py.codex.bak''] = None"
  using run_tool_backup_gone [where w = quiet_world and cfg = default_config
          and s = with_orphan and p = "[''a.py'']" and tc = black
          and c = "[''black'', ''-q'']" and b = "[''a.py.codex.bak'']" and r = "(0, [], [])"]
        run_tool_backup_gone [where w = "breaking_world (Completed 2 [] [])"
          and cfg = default_config and s = with_orphan and p = "[''a.py'']" and tc = black
          and c = "[''black'', ''-q'']" and b = "[''a.py.codex.bak'']"
          and r = "(2, [], ''Fix failed; rolled back changes. '')"]
        run_tool_backup_gone [where w = "breaking_world TimeoutExpired"
          and cfg = default_config and s = with_orphan and p = "[''a.py'']" and tc = black
          and c = "[''black'', ''-q'']" and b = "[''a.py.codex.bak'']"
          and r = "(- 2, [], ''Analysis timed out after 30s and rolled back.'')"]
  by (simp add: black_def breaking_world_def quiet_world_def with_orphan_def init_state_def
        with_suffix_def suffix_def name_def parent_def run_tool_def copyfile_def exists_def
        move_def remove_def Let_def str_int_def digits.simps digit_def)

section \<open>Properties of the fix and check phases\<close>

lemma ext_map_nonempty: "ext_map x = Some l \<Longrightarrow> l \<noteq> []"
  by (auto simp: ext_map_def split: if_splits)

lemma process_file_success_iff:
  "fst (process_file w cfg tm s p) = Inr r \<Longrightarrow> success r = (errors r = [])"
  by (auto simp: process_file_def unsupported_def
           split: option.splits if_splits prod.splits sum.splits)

lemma record_outcome_clean: "record_outcome n (0, out, []) ew = ew"
  by (cases ew) (simp add: record_outcome_def)

lemma check_loop_clean:
  "checkers_clean w cfg p tcs s \<Longrightarrow> fst (check_loop w cfg p tcs ew s) = Inr ew"
proof (induction tcs arbitrary: s)
  case Nil
  then show ?case by simp
next
  case (Cons tc tcs)
  show ?case
  proof (cases "tc_check tc \<and> truthy (tc_command tc)")
    case True
    obtain r s' where rt: "run_tool w cfg s p tc False = (r, s')"
      by (cases "run_tool w cfg s p tc False")
    with True Cons.prems obtain out where r: "r = Inr (0, out, [])"
      and c: "checkers_clean w cfg p tcs s'"
      by (cases r) auto
    from Cons.IH [OF c] True rt r show ?thesis
      by (simp add: record_outcome_clean)
  next
    case False
    with Cons show ?thesis by auto
  qed
qed

lemma process_file_clean:
  assumes "ext_map (suffix p) = Some lang" and "tm lang = Some tools"
    and "fst (fix_phase w cfg p tools s) = Inr fx"
    and "checkers_clean w cfg p tools (snd (fix_phase w cfg p tools s))"
  shows "\<exists>r. fst (process_file w cfg tm s p) = Inr r \<and> success r \<and> was_fixed r = fx"
proof -
  obtain s1 where f: "fix_phase w cfg p tools s = (Inr fx, s1)"
    using assms(3) by (cases "fix_phase w cfg p tools s") auto
  with assms(4) have "checkers_clean w cfg p tools s1" by simp
  then have "fst (check_loop w cfg p tools ([], []) s1) = Inr ([], [])"
    by (rule check_loop_clean)
  then obtain s2 where c: "check_loop w cfg p tools ([], []) s1 = (Inr ([], []), s2)"
    by (cases "check_loop w cfg p tools ([], []) s1") auto
  from assms(1) have "lang \<noteq> []" by (rule ext_map_nonempty)
  with assms(1,2) f c show ?thesis
    by (simp add: process_file_def)
qed

text \<open>
  Claim C5. Every result that \<open>process_file\<close> returns has \<open>success\<close> true exactly when
  its error list is empty; the warnings play no part. In particular, for a file of a
  supported language whose fix phase has ended, if every configured checker, run in its
  turn on the file as the fix phase left it, returns code 0 with empty stderr, then
  \<open>process_file\<close> returns a result with \<open>success\<close> true.
\<close>

theorem process_file_success:
  "(fst (process_file w cfg tm s p) = Inr r \<longrightarrow> success r = (errors r = [])) \<and>
   (ext_map (suffix p) = Some lang \<and> tm lang = Some tools \<and>
    fst (fix_phase w cfg p tools s) = Inr fx \<and>
    checkers_clean w cfg p tools (snd (fix_phase w cfg p tools s))
    \<longrightarrow> (\<exists>r'. fst (process_file w cfg tm s p) = Inr r' \<and> success r'))"
  using process_file_success_iff [of w cfg tm s p r]
        process_file_clean [of p lang tm tools w cfg s fx]
  by blast

theorem process_file_success_witness:
  "fst (process_file (noisy_world 1 ''line 3: unused import'' []) default_config
          DEFAULT_TOOL_MAP one_file [''a.py'']) =
     Inr \<lparr>file_path = ''a.py'', language = ''Python'', success = False,
          errors = [''[pylint] line 3: unused import''], warnings = [], was_fixed = False\<rparr> \<and>
   fst (process_file bare_world default_config DEFAULT_TOOL_MAP one_file [''a.py'']) =
     Inr \<lparr>file_path = ''a.py'', language = ''Python'', success = True, errors = [],
          warnings = [''pylint not available. Install it.''], was_fixed = False\<rparr> \<and>
   checkers_clean picky_world default_config [''a.py''] [pylint, black] one_file \<and>
   \<not> checkers_clean picky_world default_config [''a.py''] [pylint, black]
       (init_state [[''a.py''] \<mapsto> ''x=('']) \<and>
   (\<exists>r'. fst (process_file picky_world default_config DEFAULT_TOOL_MAP one_file [''a.py'']) = Inr r'
      \<and> success r')"
  using process_file_success [where w = picky_world and cfg = default_config
      and tm = DEFAULT_TOOL_MAP and s = one_file and p = "[''a.py'']" and lang = "''python''"
      and tools = "[pylint, black]" and fx = False
      and r = "\<lparr>file_path = ''a.py'', language = ''Python'', success = True, errors = [],
            warnings = [], was_fixed = False\<rparr>"]
  by (simp add: suffix_def name_def ext_map_def DEFAULT_TOOL_MAP_def fix_phase_def
        default_config_def pylint_def black_def run_tool_def with_suffix_def quiet_world_def
        noisy_world_def bare_world_def picky_world_def one_file_def init_state_def
        process_file_def record_outcome_def is_linebreak_def capitalize_def
        upper_char_def lower_char_def Let_def)

text \<open>
  Claim C7, as stated, fails: a checker that is not installed gives a non-zero result
  code (\<open>-1\<close>) and a non-empty stderr text, and the loop appends a warning and no error.
\<close>

theorem missing_checker_counterexample:
  "fst (run_tool bare_world default_config one_file [''a.py''] pylint False) =
     Inr (- 1, [], ''Tool '' @ [CHR 0x27] @ ''pylint'' @ [CHR 0x27] @ '' not found in system path.'') \<and>
   fst (check_loop bare_world default_config [''a.py''] [pylint] ([], []) one_file) =
     Inr ([], [''pylint not available. Install it.''])"
  by (simp add: bare_world_def quiet_world_def pylint_def run_tool_def with_suffix_def suffix_def
        name_def Let_def record_outcome_def)

lemma result_code_found:
  assumes "run_tool w cfg s p tc fx = (Inr (code, out, err), s')"
    and "code \<noteq> - 1" and "tc_command tc = CmdList c"
  shows "w_which w (hd (c @ [path_str p]))"
  using assms
  by (auto simp: run_tool_def Let_def split: sum.splits if_splits)

text \<open>
  Claim C7, amended. For every checker invocation whose tool is found on the search path
  and that fails (non-zero exit code or non-empty stderr), stdout followed by stderr is
  split into lines; with no lines the one line "Exit code <code> from <tool>" is appended
  to the errors, otherwise the first five lines at most, each prefixed with the tool's
  name in brackets. The statement is made of every result code other than \<open>-1\<close>: such a
  code comes from a tool that was found (\<open>result_code_found\<close>), and nothing is stated
  here of a found tool that itself exits with \<open>-1\<close>.
\<close>

theorem check_loop_failure:
  assumes "tc_check tc" and "truthy (tc_command tc)"
    and "run_tool w cfg s p tc False = (Inr (code, out, err), s')"
    and "code \<noteq> - 1"
    and "code \<noteq> 0 \<or> err \<noteq> []"
  shows "check_loop w cfg p (tc # tcs) (errs, warns) s =
         check_loop w cfg p tcs
           (errs @ (if splitlines (out @ err) = []
                    then [''Exit code '' @ str_int code @ '' from '' @ tc_tool tc]
                    else map (\<lambda>line. ''['' @ tc_tool tc @ ''] '' @ line)
                           (take 5 (splitlines (out @ err)))),
            warns) s'"
  using assms by (auto simp: record_outcome_def Let_def)

theorem check_loop_failure_witness:
  "fst (check_loop (noisy_world 1 seven_lines []) default_config [''a.py''] [pylint] ([], [])
          one_file)
    = Inr ([''[pylint] l1'', ''[pylint] l2'', ''[pylint] l3'', ''[pylint] l4'', ''[pylint] l5''], []) \<and>
   fst (check_loop (noisy_world 2 [] []) default_config [''a.py''] [pylint] ([], []) one_file)
    = Inr ([''Exit code 2 from pylint''], [])"
  using check_loop_failure [where w = "noisy_world 1 seven_lines []" and cfg = default_config
         and s = one_file and p = "[''a.py'']" and tc = pylint and tcs = "[]" and errs = "[]"
         and warns = "[]" and code = 1 and out = seven_lines and err = "[]"
         and s' = "snd (run_tool (noisy_world 1 seven_lines []) default_config one_file
                     [''a.py''] pylint False)"]
        check_loop_failure [where w = "noisy_world 2 [] []" and cfg = default_config
         and s = one_file and p = "[''a.py'']" and tc = pylint and tcs = "[]" and errs = "[]"
         and warns = "[]" and code = 2 and out = "[]" and err = "[]"
         and s' = "snd (run_tool (noisy_world 2 [] []) default_config one_file
                     [''a.py''] pylint False)"]
  by (simp add: noisy_world_def quiet_world_def pylint_def run_tool_def with_suffix_def suffix_def
        name_def Let_def seven_lines_def is_linebreak_def str_int_def digits.simps digit_def
        record_outcome_def)

text \<open>
  Claim C3 does not hold of the code. The codes \<open>-1\<close>, \<open>-2\<close>, \<open>-3\<close> stand for "tool not
  found", "timeout" and "execution error", but they are also return codes a tool can
  have: \<open>subprocess\<close> reports a child killed by signal \<open>n\<close> with the code \<open>-n\<close>. Here the
  checker is installed, runs and is killed by signal 1 (return code \<open>-1\<close>, no output):
  \<open>_run_tool\<close> returns the code \<open>-1\<close>, and \<open>process_file\<close> records the warning of a
  tool that is not installed, no error, and \<open>success\<close> true.
\<close>

theorem killed_checker_taken_for_missing:
  "w_which (noisy_world (- 1) [] []) ''pylint'' \<and>
   fst (run_tool (noisy_world (- 1) [] []) default_config one_file [''a.py''] pylint False)
     = Inr (- 1, [], []) \<and>
   fst (process_file (noisy_world (- 1) [] []) default_config DEFAULT_TOOL_MAP one_file
          [''a.py''])
     = Inr \<lparr>file_path = ''a.py'', language = ''Python'', success = True, errors = [],
            warnings = [''pylint not available. Install it.''], was_fixed = False\<rparr>"
  by (simp add: noisy_world_def quiet_world_def pylint_def black_def run_tool_def with_suffix_def
        suffix_def name_def Let_def record_outcome_def process_file_def fix_phase_def
        default_config_def DEFAULT_TOOL_MAP_def ext_map_def capitalize_def upper_char_def
        lower_char_def)








section \<open>Properties of the directory scanner\<close>

lemma walk_paths:
  "p \<in> set (walk skip root t) \<Longrightarrow>
   \<exists>rest. p = root @ rest \<and> rest \<noteq> [] \<and> set (butlast rest) \<inter> skip = {} \<and>
          ext_map (suffix [last rest]) \<noteq> None"
proof (induction skip root t arbitrary: p rule: walk.induct)
  case (1 skip root fs ds)
  from "1.prems" consider
      (infile) f where "f \<in> set fs" "ext_map (suffix [f]) \<noteq> None" "p = root @ [f]"
    | (below) d t where "(d, t) \<in> set ds" "d \<notin> skip" "p \<in> set (walk skip (root @ [d]) t)"
    by auto
  then show ?case
  proof cases
    case infile
    then show ?thesis by (intro exI [of _ "[f]"]) simp
  next
    case below
    from below(1,2) have "(d, t) \<in> set (filter (\<lambda>(d, t). d \<notin> skip) ds)" by simp
    from "1.IH" [OF this refl below(3)]
    obtain rest where r: "p = (root @ [d]) @ rest" "rest \<noteq> []"
        "set (butlast rest) \<inter> skip = {}" "ext_map (suffix [last rest]) \<noteq> None"
      by blast
    with below(2) show ?thesis
      by (intro exI [of _ "d # rest"]) simp
  qed
qed

lemma as_completed_length: "length (as_completed pick n xs) = min n (length xs)"
proof (induction n arbitrary: xs)
  case 0
  then show ?case by simp
next
  case (Suc n)
  show ?case
  proof (cases xs)
    case Nil
    then show ?thesis by simp
  next
    case (Cons y ys)
    let ?i = "pick xs mod length xs"
    let ?rest = "take ?i xs @ drop (Suc ?i) xs"
    from Cons have i: "?i < length xs" by simp
    then have len: "length ?rest = length ys" using Cons by auto
    have "length (as_completed pick (Suc n) xs) = Suc (length (as_completed pick n ?rest))"
      using Cons by (simp add: Let_def)
    also have "\<dots> = Suc (min n (length ys))"
      by (simp only: Suc.IH len)
    also have "\<dots> = min (Suc n) (length xs)"
      using Cons by simp
    finally show ?thesis .
  qed
qed

lemma as_completed_subset: "set (as_completed pick n xs) \<subseteq> set xs"
proof (induction n arbitrary: xs)
  case 0
  then show ?case by simp
next
  case (Suc n)
  show ?case
  proof (cases "xs = []")
    case True
    then show ?thesis by simp
  next
    case False
    let ?i = "pick xs mod length xs"
    from False have i: "?i < length xs" by simp
    have "set (take ?i xs @ drop (Suc ?i) xs) \<subseteq> set xs"
      by (auto dest: in_set_takeD in_set_dropD)
    with Suc [of "take ?i xs @ drop (Suc ?i) xs"] i False show ?thesis
      by (auto simp: Let_def)
  qed
qed

lemma process_file_path:
  "fst (process_file w cfg tm s p) = Inr r \<Longrightarrow> file_path r = path_str p"
  by (auto simp: process_file_def unsupported_def
           split: option.splits if_splits prod.splits sum.splits)

lemma run_pool_paths:
  "gather (fst (run_pool w cfg tm s ps)) = Inr xs \<Longrightarrow> map file_path xs = map path_str ps"
proof (induction ps arbitrary: s xs)
  case Nil
  then show ?case by simp
next
  case (Cons p ps)
  obtain r s1 where pf: "process_file w cfg tm s p = (r, s1)" by (cases "process_file w cfg tm s p")
  obtain rs s2 where rp: "run_pool w cfg tm s1 ps = (rs, s2)" by (cases "run_pool w cfg tm s1 ps")
  from Cons.prems pf rp obtain x ys where x: "r = Inr x" "gather rs = Inr ys" "xs = x # ys"
    by (cases r; cases "gather rs") auto
  from pf x(1) have "file_path x = path_str p" using process_file_path [of w cfg tm s p x] by simp
  moreover from Cons.IH [of s1 ys] rp x(2) have "map file_path ys = map path_str ps" by simp
  ultimately show ?case using x(3) by simp
qed

lemma scan_paths:
  assumes "fst (scan_directory w cfg tm s target t) = Inr rs"
  shows "map file_path rs =
         map path_str (as_completed (w_pick w) (length (files_to_scan cfg target t))
                         (files_to_scan cfg target t))"
  using assms run_pool_paths [of w cfg tm s _ rs]
  by (auto simp: scan_directory_def Let_def split: prod.splits if_splits)

lemma scan_length:
  assumes "fst (scan_directory w cfg tm s target t) = Inr rs"
  shows "length rs = length (files_to_scan cfg target t)"
proof -
  have "length rs = length (map file_path rs)" by simp
  also have "\<dots> = length (as_completed (w_pick w) (length (files_to_scan cfg target t))
                         (files_to_scan cfg target t))"
    using scan_paths [OF assms] by simp
  finally show ?thesis by (simp add: as_completed_length)
qed

lemmas scan_eval = files_to_scan_def sample_tree_def default_config_def DEFAULT_SKIP_def
  suffix_def name_def ext_map_def scan_directory_def Let_def process_file_def
  string_command_def pylint_def eslint_def black_def prettier_def DEFAULT_TOOL_MAP_def
  quiet_world_def init_state_def fix_phase_def run_tool_def with_suffix_def
  record_outcome_def capitalize_def upper_char_def lower_char_def unsupported_def
  last_first_world_def parent_def task_outcomes_def

lemma sample_files:
  "files_to_scan default_config [''proj''] sample_tree =
     [[''proj'', ''a.py''], [''proj'', ''src'', ''b.js'']]"
  by (simp add: scan_eval)

text \<open>
  Claim C1, as stated, fails: nothing in \<open>process_file\<close> or \<open>scan_directory\<close> catches an
  exception of a task; \<open>future.result()\<close> raises it again and the scan ends without a result
  list. Here the configuration gives the Python checker's command as a string, so the
  concatenation \<open>command + [path]\<close> in \<open>_run_tool\<close> raises \<open>TypeError\<close> for \<open>a.py\<close>; the
  JavaScript file alone is processed well, yet the scan of the two files returns no
  results at all.
\<close>

theorem scan_aborts_counterexample:
  "files_to_scan default_config [''proj''] sample_tree =
     [[''proj'', ''a.py''], [''proj'', ''src'', ''b.js'']] \<and>
   fst (process_file quiet_world default_config string_command (init_state Map.empty)
          [''proj'', ''src'', ''b.js'']) =
     Inr \<lparr>file_path = ''proj/src/b.js'', language = ''Javascript'', success = True,
          errors = [], warnings = [], was_fixed = False\<rparr> \<and>
   fst (process_file quiet_world default_config string_command (init_state Map.empty)
          [''proj'', ''a.py'']) = Inl TypeError \<and>
   fst (scan_directory quiet_world default_config string_command (init_state Map.empty)
          [''proj''] sample_tree) = Inl TypeError"
  by (simp add: scan_eval)

lemma gather_raises: "Inl e \<in> set rs \<Longrightarrow> \<exists>e'. gather rs = Inl e'"
proof (induction rs)
  case Nil
  then show ?case by simp
next
  case (Cons r rs)
  show ?case
  proof (cases r)
    case (Inl a)
    then show ?thesis by simp
  next
    case (Inr x)
    with Cons obtain e' where "gather rs = Inl e'" by auto
    with Inr show ?thesis by simp
  qed
qed

lemma scan_raises:
  assumes "Inl e \<in> set (task_outcomes w cfg tm s target t)"
  shows "\<exists>e'. fst (scan_directory w cfg tm s target t) = Inl e'"
proof (cases "max_workers cfg \<le> 0")
  case True
  then show ?thesis by (simp add: scan_directory_def Let_def)
next
  case False
  let ?fts = "files_to_scan cfg target t"
  let ?pool = "run_pool w cfg tm s (as_completed (w_pick w) (length ?fts) ?fts)"
  from assms have "Inl e \<in> set (fst ?pool)" by (simp add: task_outcomes_def Let_def)
  then obtain e' where "gather (fst ?pool) = Inl e'" using gather_raises by blast
  with False show ?thesis
    by (cases ?pool) (simp add: scan_directory_def Let_def)
qed

lemma sample_scan:
  "fst (scan_directory last_first_world default_config DEFAULT_TOOL_MAP (init_state Map.empty)
          [''proj''] sample_tree) =
     Inr [\<lparr>file_path = ''proj/src/b.js'', language = ''Javascript'', success = True,
           errors = [], warnings = [], was_fixed = False\<rparr>,
          \<lparr>file_path = ''proj/a.py'', language = ''Python'', success = True,
           errors = [], warnings = [], was_fixed = False\<rparr>]"
  by (simp add: scan_eval)

text \<open>
  Claim C1, amended. Whenever \<open>scan_directory\<close> returns, it returns exactly one result for
  each of the N files it collected; and when the processing of a file raises, no result
  stands for that file: \<open>scan_directory\<close> itself ends with an exception and returns no
  results.
\<close>

theorem scan_directory_count:
  "(\<forall>rs. fst (scan_directory w cfg tm s target t) = Inr rs \<longrightarrow>
      length rs = length (files_to_scan cfg target t)) \<and>
   (\<forall>e. Inl e \<in> set (task_outcomes w cfg tm s target t) \<longrightarrow>
      (\<exists>e'. fst (scan_directory w cfg tm s target t) = Inl e'))"
  using scan_length [of w cfg tm s target t] scan_raises [of _ w cfg tm s target t]
  by blast

theorem scan_directory_count_witness:
  "(\<exists>rs. fst (scan_directory last_first_world default_config DEFAULT_TOOL_MAP
             (init_state Map.empty) [''proj''] sample_tree) = Inr rs \<and> length rs = 2) \<and>
   (\<exists>e'. fst (scan_directory quiet_world default_config string_command
             (init_state Map.empty) [''proj''] sample_tree) = Inl e')"
proof -
  have n: "length (files_to_scan default_config [''proj''] sample_tree) = 2"
    by (simp add: sample_files)
  have o: "Inl TypeError \<in> set (task_outcomes quiet_world default_config string_command
             (init_state Map.empty) [''proj''] sample_tree)"
    by (simp add: scan_eval)
  from scan_directory_count [of last_first_world default_config DEFAULT_TOOL_MAP
         "init_state Map.empty" "[''proj'']" sample_tree] sample_scan n
  have "\<exists>rs. fst (scan_directory last_first_world default_config DEFAULT_TOOL_MAP
             (init_state Map.empty) [''proj''] sample_tree) = Inr rs \<and> length rs = 2"
    by metis
  moreover from scan_directory_count [of quiet_world default_config string_command
         "init_state Map.empty" "[''proj'']" sample_tree] o
  have "\<exists>e'. fst (scan_directory quiet_world default_config string_command
             (init_state Map.empty) [''proj''] sample_tree) = Inl e'"
    by blast
  ultimately show ?thesis by blast
qed

text \<open>
  Claim C9, as stated, fails for the scan root: \<open>os.walk\<close> filters the subdirectory lists
  only, so the directory the scan starts from is entered whatever its name. A scan of a
  directory called \<open>build\<close> (a name of the skip set) reports the file in it.
\<close>

theorem skipped_root_counterexample:
  "''build'' \<in> skip_dirs default_config \<and>
   fst (scan_directory quiet_world default_config DEFAULT_TOOL_MAP (init_state Map.empty)
          [''build''] (Dir [''a.py''] [])) =
     Inr [\<lparr>file_path = ''build/a.py'', language = ''Python'', success = True,
           errors = [], warnings = [], was_fixed = False\<rparr>]"
  by (simp add: scan_eval)

text \<open>
  Claim C9, amended. For every directory strictly below the scan root whose name is in the
  skip set, no file beneath it at any depth is collected or appears in the results: every
  collected path is the root followed by directory names, none of them in the skip set,
  and a file name; and every result is the result of a collected path.
\<close>

theorem scan_prunes_below_root:
  "(\<forall>p\<in>set (files_to_scan cfg target t).
      \<exists>rest. p = target @ rest \<and> rest \<noteq> [] \<and> set (butlast rest) \<inter> skip_dirs cfg = {}) \<and>
   (\<forall>rs. fst (scan_directory w cfg tm s target t) = Inr rs \<longrightarrow>
      (\<forall>r\<in>set rs. \<exists>p\<in>set (files_to_scan cfg target t). file_path r = path_str p))"
proof (intro conjI ballI allI impI)
  fix p assume "p \<in> set (files_to_scan cfg target t)"
  then show "\<exists>rest. p = target @ rest \<and> rest \<noteq> [] \<and> set (butlast rest) \<inter> skip_dirs cfg = {}"
    using walk_paths [of p "skip_dirs cfg" target t] by (auto simp: files_to_scan_def)
next
  fix rs r assume a: "fst (scan_directory w cfg tm s target t) = Inr rs" and r: "r \<in> set rs"
  let ?fts = "files_to_scan cfg target t"
  let ?order = "as_completed (w_pick w) (length ?fts) ?fts"
  from scan_paths [OF a] have m: "map file_path rs = map path_str ?order" .
  from r have "file_path r \<in> set (map file_path rs)" by simp
  with m have "file_path r \<in> set (map path_str ?order)" by simp
  then obtain p where "p \<in> set ?order" "file_path r = path_str p" by auto
  with as_completed_subset [of "w_pick w" "length ?fts" ?fts]
  show "\<exists>p\<in>set ?fts. file_path r = path_str p" by auto
qed

theorem scan_prunes_below_root_witness:
  "files_to_scan default_config [''proj''] sample_tree =
     [[''proj'', ''a.py''], [''proj'', ''src'', ''b.js'']] \<and>
   fst (scan_directory last_first_world default_config DEFAULT_TOOL_MAP (init_state Map.empty)
          [''proj''] sample_tree) =
     Inr [\<lparr>file_path = ''proj/src/b.js'', language = ''Javascript'', success = True,
           errors = [], warnings = [], was_fixed = False\<rparr>,
          \<lparr>file_path = ''proj/a.py'', language = ''Python'', success = True,
           errors = [], warnings = [], was_fixed = False\<rparr>]"
  using scan_prunes_below_root [of default_config "[''proj'']" sample_tree last_first_world
          DEFAULT_TOOL_MAP "init_state Map.empty"]
  by (simp add: scan_eval)

end
